theory Spec2Isabelle
  imports Complex_Main "HOL-Library.Sublist"
begin

section \<open>Text primitives of the two scripts\<close>

text \<open>
  The repository holds two stand-alone programs, \<^verbatim>\<open>script.py\<close> (class
  \<^verbatim>\<open>DocumentProcessor\<close>) and \<^verbatim>\<open>script2.py\<close> (class \<^verbatim>\<open>ValveProcessor\<close>).
  Definitions taken from \<^verbatim>\<open>script.py\<close> keep the source's names; definitions taken
  from \<^verbatim>\<open>script2.py\<close> carry the suffix \<open>2\<close>.

  A Python \<^verbatim>\<open>str\<close> is modelled as a \<open>string\<close> whose characters are ASCII code points:
  \<open>is_space\<close> is the ASCII part of what \<^verbatim>\<open>str.strip()\<close>, \<^verbatim>\<open>str.split()\<close> and the
  regular-expression class \<^verbatim>\<open>\s\<close> treat as whitespace, \<open>upper_char\<close> and
  \<open>lower_char\<close> are \<^verbatim>\<open>str.upper()\<close> and \<^verbatim>\<open>str.lower()\<close> on one ASCII character.
\<close>

text \<open>Membership of a character in a string, \<^verbatim>\<open>c in s\<close>.\<close>

fun elem :: "char \<Rightarrow> string \<Rightarrow> bool" where
  "elem c [] = False"
| "elem c (d # ds) = (if c = d then True else elem c ds)"

definition is_space :: "char \<Rightarrow> bool" where
  "is_space c = elem c [CHR '' '', CHR 0x09, CHR 0x0A, CHR 0x0B, CHR 0x0C, CHR 0x0D,
                        CHR 0x1C, CHR 0x1D, CHR 0x1E, CHR 0x1F]"

definition is_digit :: "char \<Rightarrow> bool" where
  "is_digit c = elem c ''0123456789''"

definition upper_char :: "char \<Rightarrow> char" where
  "upper_char c =
     (case map_of (zip ''abcdefghijklmnopqrstuvwxyz'' ''ABCDEFGHIJKLMNOPQRSTUVWXYZ'') c of
        Some u \<Rightarrow> u | None \<Rightarrow> c)"

definition lower_char :: "char \<Rightarrow> char" where
  "lower_char c =
     (case map_of (zip ''ABCDEFGHIJKLMNOPQRSTUVWXYZ'' ''abcdefghijklmnopqrstuvwxyz'') c of
        Some l \<Rightarrow> l | None \<Rightarrow> c)"

definition upper :: "string \<Rightarrow> string" where
  "upper s = map upper_char s"

definition lower :: "string \<Rightarrow> string" where
  "lower s = map lower_char s"

text \<open>
  The low five bits (least significant first) of an ASCII letter: a value from 1 to 26.
\<close>

definition letter_bits :: "bool \<Rightarrow> bool \<Rightarrow> bool \<Rightarrow> bool \<Rightarrow> bool \<Rightarrow> bool" where
  "letter_bits b0 b1 b2 b3 b4 =
     ((b0 \<or> b1 \<or> b2 \<or> b3 \<or> b4) \<and> \<not> (b4 \<and> b3 \<and> (b2 \<or> (b1 \<and> b0))))"

text \<open>\<^verbatim>\<open>s.strip()\<close>: leading and trailing whitespace removed.\<close>

definition strip :: "string \<Rightarrow> string" where
  "strip s = rev (dropWhile is_space (rev (dropWhile is_space s)))"

text \<open>\<^verbatim>\<open>needle in s\<close> on strings.\<close>

fun starts_with :: "string \<Rightarrow> string \<Rightarrow> bool" where
  "starts_with [] s = True"
| "starts_with (n # ns) [] = False"
| "starts_with (n # ns) (c # cs) = (if n = c then starts_with ns cs else False)"

fun contains :: "string \<Rightarrow> string \<Rightarrow> bool" where
  "contains needle [] = (needle = [])"
| "contains needle (c # cs) =
     (if starts_with needle (c # cs) then True else contains needle cs)"

text \<open>
  \<^verbatim>\<open>re.sub(lit + '$', '', s)\<close> for a literal \<open>lit\<close>: Python's \<^verbatim>\<open>$\<close> matches at the
  end of the string and also just before a newline that ends the string.
\<close>

definition sub_at_end :: "string \<Rightarrow> string \<Rightarrow> string" where
  "sub_at_end lit s =
     (if suffix lit s then take (length s - length lit) s
      else if suffix (lit @ [CHR 0x0A]) s
        then take (length s - length lit - 1) s @ [CHR 0x0A]
      else s)"

text \<open>\<^verbatim>\<open>re.sub(r'\s+', ' ', s)\<close>: every maximal run of whitespace becomes one blank.\<close>

function collapse_ws :: "string \<Rightarrow> string" where
  "collapse_ws [] = []"
| "collapse_ws (c # cs) =
     (if is_space c then CHR '' '' # collapse_ws (dropWhile is_space cs)
      else c # collapse_ws cs)"
  by pat_completeness auto
termination
  by (relation "measure length") (auto simp: le_imp_less_Suc length_dropWhile_le)

text \<open>
  \<^verbatim>\<open>re.sub(r'^\s*(?:VALVE|CHECK)\s+', '', s)\<close>: the pattern is anchored at the start
  of the string, so at most one occurrence is removed; both repetitions are greedy.
\<close>

definition sub_qualifier :: "string \<Rightarrow> string" where
  "sub_qualifier s =
     (let t = dropWhile is_space s in
      if prefix ''VALVE'' t \<or> prefix ''CHECK'' t then
        (case drop 5 t of
           [] \<Rightarrow> s
         | c # r \<Rightarrow> if is_space c then dropWhile is_space r else s)
      else s)"

section \<open>Regular expressions as the scripts use them\<close>

text \<open>
  The scripts drive Python's \<^verbatim>\<open>re\<close> module. The fragment of the pattern language
  they use is embedded as a datatype and interpreted by a backtracking matcher that
  returns the possible matches at one position in the order in which \<^verbatim>\<open>re\<close> tries
  them (greedy repetition first, alternatives left to right), so that the head of the list
  is the match Python reports.
\<close>

datatype cc =
    Digit            \<comment> \<open>\<^verbatim>\<open>\d\<close>\<close>
  | Space            \<comment> \<open>\<^verbatim>\<open>\s\<close>\<close>
  | OneOf string     \<comment> \<open>\<^verbatim>\<open>[...]\<close>\<close>
  | NoneOf string    \<comment> \<open>\<^verbatim>\<open>[^...]\<close>\<close>
  | Either cc cc     \<comment> \<open>a set that joins two of the above, as \<^verbatim>\<open>[\d,]\<close>\<close>

datatype rx =
    Eps
  | Lit string                  \<comment> \<open>literal text\<close>
  | Rep cc nat "nat option"     \<comment> \<open>greedy repetition of a character class, \<^verbatim>\<open>{lo,hi}\<close>\<close>
  | Seq rx rx
  | Alt rx rx                   \<comment> \<open>\<^verbatim>\<open>a|b\<close>\<close>
  | Opt rx                      \<comment> \<open>\<^verbatim>\<open>(?:a)?\<close>\<close>
  | Grp rx                      \<comment> \<open>capturing group 1\<close>
  | Bol                         \<comment> \<open>\<^verbatim>\<open>^\<close>\<close>
  | Eol                         \<comment> \<open>\<^verbatim>\<open>$\<close>\<close>
  | Wordb                       \<comment> \<open>\<^verbatim>\<open>\b\<close>\<close>
  | Behind nat rx               \<comment> \<open>\<^verbatim>\<open>(?<=a)\<close>, with the width of \<open>a\<close>\<close>
  | Ahead rx                    \<comment> \<open>\<^verbatim>\<open>(?=a)\<close>\<close>

definition AZ :: string where
  "AZ = ''ABCDEFGHIJKLMNOPQRSTUVWXYZ''"

definition is_word :: "char \<Rightarrow> bool" where
  "is_word c = elem c (AZ @ ''abcdefghijklmnopqrstuvwxyz'' @ ''0123456789_'')"

text \<open>The flag \<open>ic\<close> is \<^verbatim>\<open>re.IGNORECASE\<close>.\<close>

definition ceq :: "bool \<Rightarrow> char \<Rightarrow> char \<Rightarrow> bool" where
  "ceq ic l c =
     (if l = c then True else if ic then upper_char l = upper_char c else False)"

fun cc_plain :: "cc \<Rightarrow> char \<Rightarrow> bool" where
  "cc_plain Digit c = is_digit c"
| "cc_plain Space c = is_space c"
| "cc_plain (OneOf cs) c = elem c cs"
| "cc_plain (NoneOf cs) c = (\<not> elem c cs)"
| "cc_plain (Either a b) c = (if cc_plain a c then True else cc_plain b c)"

fun cc_ok :: "bool \<Rightarrow> cc \<Rightarrow> char \<Rightarrow> bool" where
  "cc_ok ic (NoneOf cs) c =
     (if elem c cs then False
      else if ic then (if elem (upper_char c) cs then False else \<not> elem (lower_char c) cs)
      else True)"
| "cc_ok ic k c =
     (if cc_plain k c then True
      else if ic then (if cc_plain k (upper_char c) then True else cc_plain k (lower_char c))
      else False)"

fun match_lit :: "bool \<Rightarrow> string \<Rightarrow> string \<Rightarrow> bool" where
  "match_lit ic [] r = True"
| "match_lit ic (l # ls) [] = False"
| "match_lit ic (l # ls) (c # cs) = (if ceq ic l c then match_lit ic ls cs else False)"

text \<open>
  A matcher state is the text before the current position (reversed), the text from the
  current position on, and the text of group 1 once it has been captured.
\<close>

type_synonym mstate = "string \<times> string \<times> string option"

definition advance :: "nat \<Rightarrow> mstate \<Rightarrow> mstate" where
  "advance k s = (case s of (pre, rest, cap) \<Rightarrow> (rev (take k rest) @ pre, drop k rest, cap))"

definition rep_counts :: "nat \<Rightarrow> nat \<Rightarrow> nat list" where
  "rep_counts lo n = rev [lo ..< Suc n]"

fun ms :: "bool \<Rightarrow> rx \<Rightarrow> mstate \<Rightarrow> mstate list" where
  "ms ic Eps s = [s]"
| "ms ic (Lit l) s =
     (if match_lit ic l (fst (snd s)) then [advance (length l) s] else [])"
| "ms ic (Rep k lo hi) s =
     (let run = length (takeWhile (cc_ok ic k) (fst (snd s)));
          n = (case hi of None \<Rightarrow> run | Some h \<Rightarrow> min h run)
      in map (\<lambda>j. advance j s) (rep_counts lo n))"
| "ms ic (Seq a b) s = concat (map (ms ic b) (ms ic a s))"
| "ms ic (Alt a b) s = ms ic a s @ ms ic b s"
| "ms ic (Opt a) s = ms ic a s @ [s]"
| "ms ic (Grp a) s =
     map (\<lambda>t. (fst t, fst (snd t),
                Some (take (length (fst (snd s)) - length (fst (snd t))) (fst (snd s)))))
         (ms ic a s)"
| "ms ic Bol s = (if fst s = [] then [s] else [])"
| "ms ic Eol s =
     (if fst (snd s) = [] then [s] else if fst (snd s) = [CHR 0x0A] then [s] else [])"
| "ms ic Wordb s =
     (if (case fst s of [] \<Rightarrow> False | c # _ \<Rightarrow> is_word c)
         \<noteq> (case fst (snd s) of [] \<Rightarrow> False | c # _ \<Rightarrow> is_word c)
      then [s] else [])"
| "ms ic (Behind n a) s =
     (if length (fst s) < n then []
      else if list_ex (\<lambda>t. length (fst (snd t)) = length (fst (snd s)))
                (ms ic a (drop n (fst s), rev (take n (fst s)) @ fst (snd s), snd (snd s)))
        then [s]
      else [])"
| "ms ic (Ahead a) s = (if ms ic a s = [] then [] else [s])"

definition seq :: "rx list \<Rightarrow> rx" where
  "seq rs = foldr Seq rs Eps"

definition alts :: "string list \<Rightarrow> rx" where
  "alts ls = foldr (\<lambda>l r. Alt (Lit l) r) (butlast ls) (Lit (last ls))"

text \<open>
  \<open>match_at\<close> is the match that starts at the current position, as the pair of the whole
  match (\<^verbatim>\<open>group(0)\<close>) and \<^verbatim>\<open>group(1)\<close>.
\<close>

definition match_at :: "bool \<Rightarrow> rx \<Rightarrow> string \<Rightarrow> string \<Rightarrow> (string \<times> string option) option" where
  "match_at ic r pre rest =
     (case ms ic r (pre, rest, None) of
        [] \<Rightarrow> None
      | t # _ \<Rightarrow> Some (take (length rest - length (fst (snd t))) rest, snd (snd t)))"

text \<open>\<^verbatim>\<open>re.search\<close>: the match at the leftmost position that has one.\<close>

fun search_from :: "bool \<Rightarrow> rx \<Rightarrow> string \<Rightarrow> string \<Rightarrow> (string \<times> string option) option" where
  "search_from ic r pre [] = match_at ic r pre []"
| "search_from ic r pre (c # cs) =
     (case match_at ic r pre (c # cs) of
        Some m \<Rightarrow> Some m
      | None \<Rightarrow> search_from ic r (c # pre) cs)"

definition search :: "bool \<Rightarrow> rx \<Rightarrow> string \<Rightarrow> (string \<times> string option) option" where
  "search ic r s = search_from ic r [] s"

text \<open>
  \<^verbatim>\<open>re.finditer\<close>: the texts of the successive non-overlapping matches, left to right.
  \<open>skip\<close> counts the characters of the last match that are still to be passed over.
\<close>

fun finditer_from :: "bool \<Rightarrow> rx \<Rightarrow> nat \<Rightarrow> string \<Rightarrow> string \<Rightarrow> string list" where
  "finditer_from ic r skip pre [] =
     (if skip = 0 then (case match_at ic r pre [] of None \<Rightarrow> [] | Some m \<Rightarrow> [fst m]) else [])"
| "finditer_from ic r skip pre (c # cs) =
     (if 0 < skip then finditer_from ic r (skip - 1) (c # pre) cs
      else (case match_at ic r pre (c # cs) of
              None \<Rightarrow> finditer_from ic r 0 (c # pre) cs
            | Some m \<Rightarrow> fst m # finditer_from ic r (length (fst m) - 1) (c # pre) cs))"

definition finditer :: "bool \<Rightarrow> rx \<Rightarrow> string \<Rightarrow> string list" where
  "finditer ic r s = finditer_from ic r 0 [] s"

section \<open>Code normalizer and alias table (\<^verbatim>\<open>script.py\<close>)\<close>

text \<open>
  \<^verbatim>\<open>DocumentProcessor.normalize_code\<close>, statement by statement: strip and uppercase,
  remove a final \<^verbatim>\<open>[D]\<close>, collapse whitespace, remove a final \<^verbatim>\<open>MR\<close>, remove a
  leading \<^verbatim>\<open>VALVE\<close>/\<^verbatim>\<open>CHECK\<close> word, strip.
\<close>

definition normalize_code :: "string \<Rightarrow> string" where
  "normalize_code code =
     strip (sub_qualifier (sub_at_end ''MR'' (collapse_ws (sub_at_end ''[D]''
       (upper (strip code))))))"

text \<open>
  \<^verbatim>\<open>self.code_mappings\<close> is a \<^verbatim>\<open>defaultdict(set)\<close>: a key that was never written
  reads as the empty set, which is also what \<^verbatim>\<open>code_mappings.get(k, set())\<close> returns.
\<close>

type_synonym code_mappings = "string \<Rightarrow> string set"

definition add_mapping :: "code_mappings \<Rightarrow> string \<Rightarrow> string \<Rightarrow> code_mappings" where
  "add_mapping m k v = m(k := insert v (m k))"

text \<open>
  One iteration of the loop of \<^verbatim>\<open>load_erp_codes\<close> over the catalog rows. A row is the
  pair \<^verbatim>\<open>(str(row['acode']), str(row['cpartno']))\<close>; a missing cell prints as
  \<^verbatim>\<open>nan\<close>.
\<close>

definition load_row :: "code_mappings \<Rightarrow> string \<times> string \<Rightarrow> code_mappings" where
  "load_row m row =
     (let acode = strip (fst row); cpartno = strip (snd row) in
      if acode = [] \<or> cpartno = [] \<or> lower acode = ''nan'' \<or> lower cpartno = ''nan''
      then m
      else
        let m1 = add_mapping m acode cpartno;
            m2 = add_mapping m1 cpartno acode;
            norm_acode = normalize_code acode;
            norm_cpartno = normalize_code cpartno;
            m3 = (if norm_acode \<noteq> acode then add_mapping m2 norm_acode cpartno else m2)
        in (if norm_cpartno \<noteq> cpartno then add_mapping m3 norm_cpartno acode else m3))"

definition load_erp_codes :: "(string \<times> string) list \<Rightarrow> code_mappings" where
  "load_erp_codes rows = foldl load_row (\<lambda>k. {}) rows"

section \<open>Code extractor (\<^verbatim>\<open>script.py\<close>)\<close>

definition digits :: string where
  "digits = ''0123456789''"

definition skip_patterns :: "rx list" where
  "skip_patterns =
     [Lit ''Generated on'',
      seq [Lit ''Page '', Rep Digit 1 None, Lit '' of''],
      Lit ''This is acknowledgement'',
      Lit ''Made By'',
      Lit ''TOTAL WEIGHT'',
      Lit ''Unloading point'']"

text \<open>The pattern list of \<^verbatim>\<open>extract_codes_from_line\<close>, in the source's order.\<close>

definition product_code_rx :: rx where
  "product_code_rx = seq [Wordb, Lit ''9'', Rep (OneOf digits) 6 (Some 6), Wordb]"

definition dp_full_rx :: rx where
  "dp_full_rx =
     seq [Alt (Lit ''DP'') (Lit ''DPCV''), Rep Space 0 None, Rep Digit 4 (Some 4),
          Rep Space 0 None, Lit ''MM'', Rep Space 0 None, Lit ''#'', Rep Digit 2 (Some 4),
          Rep Space 0 None, Lit ''M-'', Rep Digit 1 None, Rep (OneOf AZ) 0 (Some 1)]"

definition dp_technical_rx :: rx where
  "dp_technical_rx =
     seq [Lit ''DP'', Rep Digit 2 (Some 2), Lit ''.'', Rep (OneOf (AZ @ digits)) 1 None,
          Lit ''.'', Rep Digit 2 (Some 2), Lit ''.'', Rep (OneOf AZ) 2 (Some 2), Lit ''.'',
          Rep Digit 1 None, Rep (OneOf AZ) 0 (Some 1)]"

definition ch_rx :: rx where
  "ch_rx = seq [Lit ''CH-'', Rep Digit 4 (Some 4), Opt (seq [Rep Space 1 None, Lit ''MR''])]"

definition ch_infix_rx :: rx where
  "ch_infix_rx = seq [Lit ''CH'', Rep (OneOf ''LHS'') 0 (Some 1), Lit ''-'', Rep Digit 4 (Some 4)]"

definition chl_chs_rx :: rx where
  "chl_chs_rx = seq [Alt (Lit ''CHL'') (Lit ''CHS''), Lit ''-'', Rep Digit 4 (Some 4)]"

definition marc_behind_rx :: rx where
  "marc_behind_rx =
     seq [Behind 11 (seq [Lit ''Marc code:'', Rep Space 1 (Some 1)]), Rep Digit 1 None]"

definition item_no_rx :: rx where
  "item_no_rx =
     seq [Behind 9 (seq [Lit ''Item No.'', Rep Space 1 (Some 1)]), Rep Digit 3 (Some 4),
          Ahead (Rep Space 1 (Some 1))]"

definition patterns :: "rx list" where
  "patterns = [product_code_rx, dp_full_rx, dp_technical_rx, ch_rx, ch_infix_rx, chl_chs_rx,
               marc_behind_rx, item_no_rx]"

text \<open>\<^verbatim>\<open>re.search(r'\d{4}', code)\<close>, the first run of four digits.\<close>

definition four_digits :: "string \<Rightarrow> string option" where
  "four_digits code = map_option fst (search False (Rep Digit 4 (Some 4)) code)"

text \<open>\<^verbatim>\<open>re.search(r'Marc code:\s*(\d+)', s)\<close>, group 1; the search is case-sensitive.\<close>

definition marc_code_of :: "string \<Rightarrow> string option" where
  "marc_code_of s =
     (case search False (seq [Lit ''Marc code:'', Rep Space 0 None, Grp (Rep Digit 1 None)]) s of
        Some (m, Some g) \<Rightarrow> Some g
      | _ \<Rightarrow> None)"

text \<open>\<^verbatim>\<open>' '.join(line.split())\<close>: whitespace runs become one blank, none at either end.\<close>

definition clean :: "string \<Rightarrow> string" where
  "clean line = strip (collapse_ws line)"

text \<open>
  The body of the inner loop of \<^verbatim>\<open>extract_codes_from_line\<close> for one match \<open>m\<close>
  (\<^verbatim>\<open>match.group(0)\<close>): the canonical code is added, a code containing \<^verbatim>\<open>CH-\<close>
  adds its two derived codes, and the Marc code of the line is added when there is one.
\<close>

definition add_code :: "string \<Rightarrow> string set \<Rightarrow> string \<Rightarrow> string set" where
  "add_code clean_line codes m =
     (let code0 = strip m in
      if code0 = [] then codes
      else
        let code = upper (collapse_ws code0);
            codes1 = insert code codes;
            codes2 =
              (if contains ''CH-'' code then
                 (case four_digits code of
                    Some num \<Rightarrow>
                      insert (''DPCV '' @ num @ '' MM'') (insert (''DP '' @ num @ '' MM'') codes1)
                  | None \<Rightarrow> codes1)
               else codes1)
        in (case marc_code_of clean_line of
              Some g \<Rightarrow> insert g codes2
            | None \<Rightarrow> codes2))"

definition extract_codes_from_line :: "string \<Rightarrow> string set" where
  "extract_codes_from_line line =
     (if list_ex (\<lambda>p. search True p line \<noteq> None) skip_patterns then {}
      else foldl (\<lambda>codes p. foldl (add_code (clean line)) codes (finditer True p (clean line)))
             {} patterns)"

section \<open>Quantity and price extractor (\<^verbatim>\<open>script.py\<close>)\<close>

text \<open>
  \<^verbatim>\<open>int(g)\<close> on a run of decimal digits, and \<^verbatim>\<open>str(n)\<close> on an integer. Python's
  integers are unbounded, so they are modelled by \<open>int\<close>.
\<close>

definition digit_val :: "char \<Rightarrow> int" where
  "digit_val c = int (length (takeWhile (\<lambda>d. d \<noteq> c) digits))"

definition int_of_digits :: "string \<Rightarrow> int" where
  "int_of_digits g = foldl (\<lambda>n c. 10 * n + digit_val c) 0 g"

function str_int :: "int \<Rightarrow> string" where
  "str_int n =
     (if n < 0 then CHR ''-'' # str_int (- n)
      else if n < 10 then [digits ! nat n]
      else str_int (n div 10) @ [digits ! nat (n mod 10)])"
  by pat_completeness auto
termination
  by (relation "measure (\<lambda>n. if n < 0 then nat (- n) + 1 else nat n)") auto

declare str_int.simps [simp del]

text \<open>
  \<^verbatim>\<open>float(s)\<close> on the texts the price groups can produce once the commas are removed:
  decimal digits, optionally followed by a point and more digits. The empty text (and a
  lone point) raise \<^verbatim>\<open>ValueError\<close>, modelled as \<open>None\<close>. A price is modelled as the
  exact real the decimal text denotes; the source holds its nearest binary64 value.
\<close>

definition py_float :: "string \<Rightarrow> real option" where
  "py_float s =
     (let ip = takeWhile is_digit s; r = dropWhile is_digit s in
      case r of
        [] \<Rightarrow> if ip = [] then None else Some (of_int (int_of_digits ip))
      | c # fp \<Rightarrow>
          if c = CHR ''.'' \<and> list_all is_digit fp \<and> (ip \<noteq> [] \<or> fp \<noteq> [])
          then Some (of_int (int_of_digits ip) + of_int (int_of_digits fp) / 10 ^ length fp)
          else None)"

definition num_rx :: rx where
  \<comment> \<open>\<^verbatim>\<open>(\d+)\<close>\<close>
  "num_rx = Grp (Rep Digit 1 None)"

definition qty_patterns :: "rx list" where
  "qty_patterns =
     [seq [Lit ''QTY'', Rep Space 0 None, Rep (OneOf '':='') 0 (Some 1), Rep Space 0 None, num_rx],
      seq [Lit ''Quantity'', Rep Space 0 None, Rep (OneOf '':='') 0 (Some 1), Rep Space 0 None,
           num_rx],
      seq [Rep Space 1 (Some 1), num_rx, Rep Space 0 None,
           Alt (Lit ''NOS'') (Alt (Lit ''PCS'') (Alt (Lit ''PIECES'') (Alt (Lit ''EA'') (Lit ''NR''))))],
      seq [Bol, Rep Space 0 None, num_rx, Rep Space 0 None, Eol],
      seq [Lit ''Quantity'', Rep Space 1 None, num_rx, Rep Space 1 None, Lit ''UM''],
      seq [Behind 1 (Rep Space 1 (Some 1)), num_rx,
           Ahead (seq [Rep Space 1 None, Alt (Lit ''NR'') (Lit ''EA'')])],
      seq [Behind 1 (Rep Space 1 (Some 1)), num_rx,
           Ahead (seq [Rep Space 1 None, Alt (Lit ''USD'') (seq [Lit ''USD'', Rep Space 1 None])])]]"

definition amount_rx :: rx where
  \<comment> \<open>\<^verbatim>\<open>([\d,]+(?:\.\d{2})?)\<close>\<close>
  "amount_rx =
     Grp (seq [Rep (Either Digit (OneOf '','')) 1 None, Opt (seq [Lit ''.'', Rep Digit 2 (Some 2)])])"

definition amount2_rx :: rx where
  \<comment> \<open>\<^verbatim>\<open>([\d,]+\.\d{2})\<close>\<close>
  "amount2_rx = Grp (seq [Rep (Either Digit (OneOf '','')) 1 None, Lit ''.'', Rep Digit 2 (Some 2)])"

definition price_patterns :: "rx list" where
  "price_patterns =
     [seq [Lit ''USD'', Rep Space 0 None, amount_rx],
      seq [Lit ''$'', Rep Space 0 None, amount_rx],
      seq [Alt (Lit ''Price'') (Lit ''PRICE''), Rep (Either (OneOf '':'') Space) 0 None, amount_rx],
      seq [Alt (Lit ''Unit Price'') (Lit ''UNIT PRICE''), Rep (Either (OneOf '':'') Space) 0 None,
           amount_rx],
      seq [Behind 1 (Rep Space 1 (Some 1)), amount2_rx, Ahead (seq [Rep Space 1 None, Lit ''USD''])],
      seq [Lit ''Amount'', Rep Space 1 None, Lit ''USD'', Rep Space 1 None, amount2_rx],
      seq [Behind 1 (Rep (OneOf AZ) 1 (Some 1)), Rep Space 1 None, amount2_rx, Rep Space 0 None, Eol]]"

text \<open>
  What one pattern of the quantity loop yields: the integer of group 1 at the leftmost
  match, if the pattern matches. \<^verbatim>\<open>int\<close> cannot fail on \<^verbatim>\<open>\d+\<close>.
\<close>

definition qty_of :: "string \<Rightarrow> rx \<Rightarrow> int option" where
  "qty_of line p =
     (case search True p line of
        Some (m, Some g) \<Rightarrow> Some (int_of_digits g)
      | _ \<Rightarrow> None)"

definition qty_ok :: "int \<Rightarrow> bool" where
  "qty_ok qty = (0 < qty \<and> qty < 10000)"

text \<open>The quantity loop: \<^verbatim>\<open>quantity = "1"\<close>, then the first in-range value breaks.\<close>

fun qty_loop :: "string \<Rightarrow> rx list \<Rightarrow> string" where
  "qty_loop line [] = ''1''"
| "qty_loop line (p # ps) =
     (case qty_of line p of
        Some qty \<Rightarrow> if qty_ok qty then str_int qty else qty_loop line ps
      | None \<Rightarrow> qty_loop line ps)"

definition price_of :: "string \<Rightarrow> rx \<Rightarrow> real option" where
  "price_of line p =
     (case search True p line of
        Some (m, Some g) \<Rightarrow> py_float (filter (\<lambda>c. c \<noteq> CHR '','') g)
      | _ \<Rightarrow> None)"

fun price_loop :: "string \<Rightarrow> rx list \<Rightarrow> real" where
  "price_loop line [] = 0"
| "price_loop line (p # ps) =
     (case price_of line p of
        Some v \<Rightarrow> if 0 < v \<and> v < 1000000 then v else price_loop line ps
      | None \<Rightarrow> price_loop line ps)"

definition extract_quantity_and_price :: "string \<Rightarrow> string \<times> real" where
  "extract_quantity_and_price line = (qty_loop line qty_patterns, price_loop line price_patterns)"

section \<open>Line items, matching and reconciliation (\<^verbatim>\<open>script.py\<close>)\<close>

record ValveItem =
  line_number :: string
  item_codes :: "string set"
  description :: string
  quantity :: string
  material_spec :: string
  source_doc :: string
  original_line :: string
  price :: real
  delivery_date :: string

text \<open>\<^verbatim>\<open>re.search(r'\(([^)]+)\)', line)\<close>, group 1: the first parenthesized segment.\<close>

definition paren_segment :: "string \<Rightarrow> string option" where
  "paren_segment line =
     (case search False (seq [Lit ''('', Grp (Rep (NoneOf '')'') 1 None), Lit '')'']) line of
        Some (m, Some g) \<Rightarrow> Some g
      | _ \<Rightarrow> None)"

text \<open>\<^verbatim>\<open>re.search(r'^\s*(\d+)', line)\<close>, group 1, or the empty string.\<close>

definition leading_number :: "string \<Rightarrow> string" where
  "leading_number line =
     (case search False (seq [Bol, Rep Space 0 None, num_rx]) line of
        Some (m, Some g) \<Rightarrow> g
      | _ \<Rightarrow> [])"

definition process_line :: "string \<Rightarrow> string \<Rightarrow> ValveItem option" where
  "process_line line doc_type =
     (if strip line = [] then None
      else
        let codes = extract_codes_from_line line in
        if codes = {} then None
        else
          let qp = extract_quantity_and_price line;
              mat = (case paren_segment line of Some g \<Rightarrow> strip g | None \<Rightarrow> [])
          in Some \<lparr> line_number = leading_number line,
                    item_codes = codes,
                    description = strip line,
                    quantity = fst qp,
                    material_spec = mat,
                    source_doc = doc_type,
                    original_line = line,
                    price = snd qp,
                    delivery_date = [] \<rparr>)"

text \<open>
  \<^verbatim>\<open>items_match\<close>. The three tiers, in the source's order: a common code; a common
  first four-digit run; a code of the sales-order item among the codes that the mapping
  table holds for a purchase-order code or for its normalized form.
\<close>

definition numbers_of :: "string set \<Rightarrow> string set" where
  "numbers_of codes = (\<Union>code \<in> codes. case four_digits code of Some n \<Rightarrow> {n} | None \<Rightarrow> {})"

definition direct_match :: "string set \<Rightarrow> string set \<Rightarrow> bool" where
  "direct_match po so = (po \<inter> so \<noteq> {})"

definition numeric_match :: "string set \<Rightarrow> string set \<Rightarrow> bool" where
  "numeric_match po so = (numbers_of po \<inter> numbers_of so \<noteq> {})"

definition mapped_match :: "code_mappings \<Rightarrow> string set \<Rightarrow> string set \<Rightarrow> bool" where
  "mapped_match m po so =
     (\<exists>po_code \<in> po.
        m po_code \<inter> so \<noteq> {} \<or>
        (normalize_code po_code \<noteq> po_code \<and> m (normalize_code po_code) \<inter> so \<noteq> {}))"

definition items_match :: "code_mappings \<Rightarrow> ValveItem \<Rightarrow> ValveItem \<Rightarrow> bool" where
  "items_match m po_item so_item =
     (if direct_match (item_codes po_item) (item_codes so_item) then True
      else if numeric_match (item_codes po_item) (item_codes so_item) then True
      else mapped_match m (item_codes po_item) (item_codes so_item))"

text \<open>
  The \<^verbatim>\<open>analysis\<close> dictionary of \<^verbatim>\<open>analyze_and_report\<close>. An entry of a mismatch
  list is kept as the values that the source's f-string interpolates (representative code,
  purchase-order value, sales-order value) rather than as the formatted text.
\<close>

record analysis =
  total_po_items :: nat
  matched_items :: nat
  mismatched_items :: nat
  doc_summary :: "(string \<times> nat) list"
  quantity_mismatches :: "(string \<times> string \<times> string) list"
  price_mismatches :: "(string \<times> real \<times> real) list"
  material_spec_mismatches :: "(string \<times> string \<times> string) list"
  unmatched_items :: "(string \<times> string) list"

datatype py_error = StopIteration

text \<open>
  \<^verbatim>\<open>next(iter(codes))\<close>: the iteration order of a Python set of strings is not fixed by
  the program, so the element taken is whatever \<open>pick\<close> selects; on the empty set
  \<^verbatim>\<open>next\<close> raises \<^verbatim>\<open>StopIteration\<close>.
\<close>

definition next_iter :: "(string set \<Rightarrow> string) \<Rightarrow> string set \<Rightarrow> py_error + string" where
  "next_iter pick codes = (if codes = {} then Inl StopIteration else Inr (pick codes))"

fun bump :: "string \<Rightarrow> (string \<times> nat) list \<Rightarrow> (string \<times> nat) list" where
  "bump k [] = [(k, 1)]"
| "bump k (e # es) = (if fst e = k then (k, snd e + 1) # es else e # bump k es)"

text \<open>The three discrepancy checks on a matched pair, in the source's order.\<close>

definition check_quantity :: "string \<Rightarrow> ValveItem \<Rightarrow> ValveItem \<Rightarrow> analysis \<Rightarrow> analysis" where
  "check_quantity code po_item so_item a =
     (if quantity po_item \<noteq> quantity so_item
      then a\<lparr>quantity_mismatches :=
               quantity_mismatches a @ [(code, quantity po_item, quantity so_item)]\<rparr>
      else a)"

definition check_price :: "string \<Rightarrow> ValveItem \<Rightarrow> ValveItem \<Rightarrow> analysis \<Rightarrow> analysis" where
  "check_price code po_item so_item a =
     (if \<bar>price po_item - price so_item\<bar> > 0.01
      then a\<lparr>price_mismatches := price_mismatches a @ [(code, price po_item, price so_item)]\<rparr>
      else a)"

definition check_material :: "string \<Rightarrow> ValveItem \<Rightarrow> ValveItem \<Rightarrow> analysis \<Rightarrow> analysis" where
  "check_material code po_item so_item a =
     (if material_spec po_item \<noteq> material_spec so_item
      then a\<lparr>material_spec_mismatches :=
               material_spec_mismatches a @ [(code, material_spec po_item, material_spec so_item)]\<rparr>
      else a)"

text \<open>
  The body of the inner loop at the sales-order item on which \<^verbatim>\<open>items_match\<close> holds:
  the matched counter, the representative code, the three checks.
\<close>

definition record_match ::
  "(string set \<Rightarrow> string) \<Rightarrow> ValveItem \<Rightarrow> ValveItem \<Rightarrow> analysis \<Rightarrow> py_error + analysis" where
  "record_match pick po_item so_item a =
     (let a1 = a\<lparr>matched_items := matched_items a + 1\<rparr> in
      case next_iter pick (item_codes po_item) of
        Inl e \<Rightarrow> Inl e
      | Inr code \<Rightarrow>
          Inr (check_material code po_item so_item
                (check_price code po_item so_item
                  (check_quantity code po_item so_item a1))))"

text \<open>
  The inner loop \<^verbatim>\<open>for so_item in so_items\<close>: it breaks at the first item on which
  \<^verbatim>\<open>items_match\<close> holds. The result is \<^verbatim>\<open>found_match\<close> and the analysis.
\<close>

fun match_loop ::
  "(string set \<Rightarrow> string) \<Rightarrow> code_mappings \<Rightarrow> ValveItem \<Rightarrow> ValveItem list \<Rightarrow> analysis
     \<Rightarrow> py_error + bool \<times> analysis" where
  "match_loop pick m po_item [] a = Inr (False, a)"
| "match_loop pick m po_item (so_item # rest) a =
     (if items_match m po_item so_item
      then (case record_match pick po_item so_item a of
              Inl e \<Rightarrow> Inl e
            | Inr a' \<Rightarrow> Inr (True, a'))
      else match_loop pick m po_item rest a)"

definition record_unmatched :: "(string set \<Rightarrow> string) \<Rightarrow> ValveItem \<Rightarrow> analysis \<Rightarrow> analysis" where
  "record_unmatched pick po_item a =
     (let code = (if item_codes po_item \<noteq> {} then pick (item_codes po_item) else ''Unknown'');
          mat = (if material_spec po_item \<noteq> [] then material_spec po_item
                 else ''No material spec'')
      in a\<lparr>mismatched_items := mismatched_items a + 1,
            unmatched_items := unmatched_items a @ [(code, mat)]\<rparr>)"

text \<open>One iteration of the outer loop \<^verbatim>\<open>for po_item in po_items\<close>.\<close>

definition analyze_po ::
  "(string set \<Rightarrow> string) \<Rightarrow> code_mappings \<Rightarrow> ValveItem list \<Rightarrow> ValveItem \<Rightarrow> analysis
     \<Rightarrow> py_error + analysis" where
  "analyze_po pick m so_items po_item a =
     (case match_loop pick m po_item so_items (a\<lparr>total_po_items := total_po_items a + 1\<rparr>) of
        Inl e \<Rightarrow> Inl e
      | Inr (found_match, a') \<Rightarrow>
          Inr (if found_match then a' else record_unmatched pick po_item a'))"

fun analyze_pos ::
  "(string set \<Rightarrow> string) \<Rightarrow> code_mappings \<Rightarrow> ValveItem list \<Rightarrow> ValveItem list \<Rightarrow> analysis
     \<Rightarrow> py_error + analysis" where
  "analyze_pos pick m so_items [] a = Inr a"
| "analyze_pos pick m so_items (po_item # rest) a =
     (case analyze_po pick m so_items po_item a of
        Inl e \<Rightarrow> Inl e
      | Inr a' \<Rightarrow> analyze_pos pick m so_items rest a')"

definition empty_analysis :: analysis where
  "empty_analysis =
     \<lparr> total_po_items = 0, matched_items = 0, mismatched_items = 0, doc_summary = [],
       quantity_mismatches = [], price_mismatches = [], material_spec_mismatches = [],
       unmatched_items = [] \<rparr>"

text \<open>
  \<^verbatim>\<open>analyze_and_report\<close> up to the point where the report text is assembled: the
  value is the \<^verbatim>\<open>analysis\<close> dictionary, or the exception that left the loops.
\<close>

definition analyze_and_report ::
  "(string set \<Rightarrow> string) \<Rightarrow> code_mappings \<Rightarrow> ValveItem list \<Rightarrow> py_error + analysis" where
  "analyze_and_report pick m items =
     (let a0 = empty_analysis\<lparr>doc_summary := foldl (\<lambda>d item. bump (source_doc item) d) [] items\<rparr>;
          po_items = filter (\<lambda>item. source_doc item = ''PO'') items;
          so_items = filter (\<lambda>item. source_doc item = ''SO'') items
      in analyze_pos pick m so_items po_items a0)"

section \<open>The second program (\<^verbatim>\<open>script2.py\<close>)\<close>

record ValveItem2 =
  item_number2 :: string
  codes2 :: "string set"
  marc_code2 :: string
  material_spec2 :: string
  quantity2 :: string
  price2 :: real
  source_doc2 :: string
  original_line2 :: string
  doc_type2 :: string

text \<open>
  \<^verbatim>\<open>ValveProcessor.extract_codes_from_line\<close>: a line whose uppercase form contains
  one of three words is skipped; four patterns are searched in the line as it is, and each
  match is stripped and uppercased. No further code is derived from a match.
\<close>

definition patterns2 :: "rx list" where
  "patterns2 = [dp_full_rx, ch_rx, dp_technical_rx, product_code_rx]"

definition extract_codes_from_line2 :: "string \<Rightarrow> string set" where
  "extract_codes_from_line2 line =
     (if list_ex (\<lambda>x. contains x (upper line)) [''DOCUSIGN'', ''PAGE'', ''GENERATED''] then {}
      else foldl (\<lambda>codes p. foldl (\<lambda>codes m. insert (upper (strip m)) codes) codes
                               (finditer True p line))
             {} patterns2)"

definition qty_patterns2 :: "rx list" where
  "qty_patterns2 = take 4 qty_patterns"

definition price_patterns2 :: "rx list" where
  "price_patterns2 = take 3 price_patterns"

text \<open>
  The price loop of \<^verbatim>\<open>script2.py\<close> assigns the parsed value to \<^verbatim>\<open>price\<close> (here \<open>cur\<close>)
  before the range test, so a value out of range stays in it unless a later pattern
  replaces it.
\<close>

fun price_loop2 :: "string \<Rightarrow> real \<Rightarrow> rx list \<Rightarrow> real" where
  "price_loop2 line cur [] = cur"
| "price_loop2 line cur (p # ps) =
     (case price_of line p of
        Some v \<Rightarrow> if 0 < v \<and> v < 1000000 then v else price_loop2 line v ps
      | None \<Rightarrow> price_loop2 line cur ps)"

definition extract_quantity_and_price2 :: "string \<Rightarrow> string \<times> real" where
  "extract_quantity_and_price2 line =
     (qty_loop line qty_patterns2, price_loop2 line 0 price_patterns2)"

text \<open>The keyword test of \<^verbatim>\<open>extract_material_spec\<close>.\<close>

definition material_keywords :: "string list" where
  "material_keywords = [''ASTM'', ''GR.'', ''WCB'', ''LCC'', ''CF8M'']"

definition plausible_material :: "string \<Rightarrow> bool" where
  "plausible_material spec = list_ex (\<lambda>x. contains x (upper spec)) material_keywords"

definition extract_material_spec2 :: "string \<Rightarrow> string" where
  "extract_material_spec2 line =
     (case paren_segment line of
        Some g \<Rightarrow> if plausible_material (strip g) then strip g else []
      | None \<Rightarrow> [])"

definition process_line2 :: "string \<Rightarrow> string \<Rightarrow> ValveItem2 option" where
  "process_line2 line doc_type =
     (if strip line = [] then None
      else
        let codes = extract_codes_from_line2 line in
        if codes = {} then None
        else
          let qp = extract_quantity_and_price2 line in
          Some \<lparr> item_number2 = [],
                 codes2 = codes,
                 marc_code2 = (case marc_code_of line of Some g \<Rightarrow> g | None \<Rightarrow> []),
                 material_spec2 = extract_material_spec2 line,
                 quantity2 = fst qp,
                 price2 = snd qp,
                 source_doc2 = doc_type,
                 original_line2 = line,
                 doc_type2 = doc_type \<rparr>)"

text \<open>
  \<^verbatim>\<open>s.replace(old, new)\<close> for a non-empty \<open>old\<close>: the occurrences are replaced from
  left to right without overlap.
\<close>

function replace_all :: "string \<Rightarrow> string \<Rightarrow> string \<Rightarrow> string" where
  "replace_all old new [] = []"
| "replace_all old new (c # cs) =
     (if old \<noteq> [] \<and> prefix old (c # cs)
      then new @ replace_all old new (drop (length old - 1) cs)
      else c # replace_all old new cs)"
  by pat_completeness auto
termination
  by (relation "measure (\<lambda>(old, new, s). length s)") (auto simp: le_imp_less_Suc)

text \<open>
  \<^verbatim>\<open>match_items\<close>. For each sales-order item in turn: a common code returns it with
  score 100; otherwise a purchase-order code that contains \<^verbatim>\<open>MR\<close> and equals one of
  its codes once every \<^verbatim>\<open>' MR'\<close> is removed returns it with score 95.
\<close>

definition fuzzy_match :: "string set \<Rightarrow> string set \<Rightarrow> bool" where
  "fuzzy_match po so =
     (\<exists>po_code \<in> po. \<exists>so_code \<in> so.
        contains ''MR'' po_code \<and> replace_all '' MR'' [] po_code = so_code)"

fun match_items2 :: "ValveItem2 \<Rightarrow> ValveItem2 list \<Rightarrow> ValveItem2 option \<times> nat" where
  "match_items2 po_item [] = (None, 0)"
| "match_items2 po_item (so_item # rest) =
     (if direct_match (codes2 po_item) (codes2 so_item) then (Some so_item, 100)
      else if fuzzy_match (codes2 po_item) (codes2 so_item) then (Some so_item, 95)
      else match_items2 po_item rest)"

text \<open>
  \<^verbatim>\<open>analyze_matches\<close>: the columns of the data frame, one element per purchase-order
  item. A sales-order cell is the representative code of the matched item or the text
  \<^verbatim>\<open>No Match\<close>.
\<close>

record analysis2 =
  po_items2 :: "string list"
  so_matches2 :: "string list"
  match_scores2 :: "nat list"
  quantity_matches2 :: "bool list"
  price_matches2 :: "bool list"
  material_matches2 :: "bool list"

definition analyze_po2 ::
  "(string set \<Rightarrow> string) \<Rightarrow> ValveItem2 list \<Rightarrow> ValveItem2 \<Rightarrow> analysis2 \<Rightarrow> py_error + analysis2" where
  "analyze_po2 pick so_items po_item a =
     (case match_items2 po_item so_items of (matched_item, score) \<Rightarrow>
      case next_iter pick (codes2 po_item) of
        Inl e \<Rightarrow> Inl e
      | Inr po_code \<Rightarrow>
          let a1 = a\<lparr>po_items2 := po_items2 a @ [po_code],
                     match_scores2 := match_scores2 a @ [score]\<rparr>
          in (case matched_item of
                Some so_item \<Rightarrow>
                  (case next_iter pick (codes2 so_item) of
                     Inl e \<Rightarrow> Inl e
                   | Inr so_code \<Rightarrow>
                       Inr (a1\<lparr>so_matches2 := so_matches2 a1 @ [so_code],
                               quantity_matches2 := quantity_matches2 a1 @
                                 [quantity2 po_item = quantity2 so_item],
                               price_matches2 := price_matches2 a1 @
                                 [\<bar>price2 po_item - price2 so_item\<bar> < 0.01],
                               material_matches2 := material_matches2 a1 @
                                 [material_spec2 po_item = material_spec2 so_item]\<rparr>))
              | None \<Rightarrow>
                  Inr (a1\<lparr>so_matches2 := so_matches2 a1 @ [''No Match''],
                          quantity_matches2 := quantity_matches2 a1 @ [False],
                          price_matches2 := price_matches2 a1 @ [False],
                          material_matches2 := material_matches2 a1 @ [False]\<rparr>)))"

fun analyze_pos2 ::
  "(string set \<Rightarrow> string) \<Rightarrow> ValveItem2 list \<Rightarrow> ValveItem2 list \<Rightarrow> analysis2
     \<Rightarrow> py_error + analysis2" where
  "analyze_pos2 pick so_items [] a = Inr a"
| "analyze_pos2 pick so_items (po_item # rest) a =
     (case analyze_po2 pick so_items po_item a of
        Inl e \<Rightarrow> Inl e
      | Inr a' \<Rightarrow> analyze_pos2 pick so_items rest a')"

definition analyze_matches2 ::
  "(string set \<Rightarrow> string) \<Rightarrow> ValveItem2 list \<Rightarrow> py_error + analysis2" where
  "analyze_matches2 pick items =
     analyze_pos2 pick (filter (\<lambda>item. doc_type2 item = ''SO'') items)
       (filter (\<lambda>item. doc_type2 item = ''PO'') items)
       \<lparr> po_items2 = [], so_matches2 = [], match_scores2 = [], quantity_matches2 = [],
         price_matches2 = [], material_matches2 = [] \<rparr>"

section \<open>Evaluating the character tests\<close>

text \<open>
  The character tests and case mappings, stated on the bits of a character (least
  significant first). They are the code equations with which the examples below are
  evaluated.
\<close>

lemma is_digit_bits [code]:
  "is_digit (Char b0 b1 b2 b3 b4 b5 b6 b7) =
     (if b7 then False else if b6 then False else if b5 then (if b4 then \<not> (b3 \<and> (b2 \<or> b1)) else False)
      else False)"
  by (cases b0; cases b1; cases b2; cases b3; cases b4; cases b5; cases b6; cases b7;
      simp add: is_digit_def)

lemma is_space_bits [code]:
  "is_space (Char b0 b1 b2 b3 b4 b5 b6 b7) =
     (if b7 then False else if b6 then False
      else if b5 then \<not> (b0 \<or> b1 \<or> b2 \<or> b3 \<or> b4)
      else if b4 then (b3 \<and> b2)
      else (b3 \<and> ((\<not> b2 \<and> (b1 \<or> b0)) \<or> (b2 \<and> \<not> b1))))"
  by (cases b0; cases b1; cases b2; cases b3; cases b4; cases b5; cases b6; cases b7;
      simp add: is_space_def)

lemma upper_char_bits [code]:
  "upper_char (Char b0 b1 b2 b3 b4 b5 b6 b7) =
     (if b7 then Char b0 b1 b2 b3 b4 b5 b6 b7
      else if b6 then
        (if b5 then (if letter_bits b0 b1 b2 b3 b4 then Char b0 b1 b2 b3 b4 False True False
                     else Char b0 b1 b2 b3 b4 b5 b6 b7)
         else Char b0 b1 b2 b3 b4 b5 b6 b7)
      else Char b0 b1 b2 b3 b4 b5 b6 b7)"
  by (cases b0; cases b1; cases b2; cases b3; cases b4; cases b5; cases b6; cases b7;
      simp add: upper_char_def letter_bits_def)

lemma lower_char_bits [code]:
  "lower_char (Char b0 b1 b2 b3 b4 b5 b6 b7) =
     (if b7 then Char b0 b1 b2 b3 b4 b5 b6 b7
      else if b6 then
        (if b5 then Char b0 b1 b2 b3 b4 b5 b6 b7
         else (if letter_bits b0 b1 b2 b3 b4 then Char b0 b1 b2 b3 b4 True True False
               else Char b0 b1 b2 b3 b4 b5 b6 b7))
      else Char b0 b1 b2 b3 b4 b5 b6 b7)"
  by (cases b0; cases b1; cases b2; cases b3; cases b4; cases b5; cases b6; cases b7;
      simp add: lower_char_def letter_bits_def)

lemma is_word_bits [code]:
  "is_word (Char b0 b1 b2 b3 b4 b5 b6 b7) =
     (if b7 then False
      else if b6 then (letter_bits b0 b1 b2 b3 b4 \<or> (\<not> b5 \<and> b0 \<and> b1 \<and> b2 \<and> b3 \<and> b4))
      else is_digit (Char b0 b1 b2 b3 b4 b5 b6 b7))"
  by (cases b0; cases b1; cases b2; cases b3; cases b4; cases b5; cases b6; cases b7;
      simp add: is_word_def is_digit_def AZ_def letter_bits_def)

section \<open>Properties of the normalizer\<close>

lemma upper_char_idem: "upper_char (upper_char c) = upper_char c"
  unfolding upper_char_def by (auto split: option.splits if_splits)

section \<open>The alias table\<close>

lemma add_mapping_mono: "m k \<subseteq> add_mapping m k' v k"
  by (auto simp: add_mapping_def)

lemma add_mapping_self: "v \<in> add_mapping m k v k"
  by (simp add: add_mapping_def)

lemma load_row_mono: "m k \<subseteq> load_row m row k"
proof -
  have step: "\<And>m' k' v. m k \<subseteq> m' k \<Longrightarrow> m k \<subseteq> add_mapping m' k' v k"
    using add_mapping_mono by blast
  show ?thesis
    unfolding load_row_def Let_def by (auto intro!: step simp del: fun_upd_apply) 
qed

lemma foldl_load_row_mono: "m k \<subseteq> foldl load_row m rows k"
proof (induction rows arbitrary: m)
  case Nil
  show ?case by simp
next
  case (Cons row rows)
  have "m k \<subseteq> load_row m row k" by (rule load_row_mono)
  also have "\<dots> \<subseteq> foldl load_row (load_row m row) rows k" by (rule Cons.IH)
  finally show ?case by simp
qed

lemma load_row_inserts:
  assumes "strip (fst row) \<noteq> []" "strip (snd row) \<noteq> []"
    "lower (strip (fst row)) \<noteq> ''nan''" "lower (strip (snd row)) \<noteq> ''nan''"
  shows "strip (snd row) \<in> load_row m row (strip (fst row))
       \<and> strip (fst row) \<in> load_row m row (strip (snd row))"
proof -
  let ?a = "strip (fst row)" and ?c = "strip (snd row)"
  let ?m2 = "add_mapping (add_mapping m ?a ?c) ?c ?a"
  have a: "?c \<in> ?m2 ?a" and c: "?a \<in> ?m2 ?c"
    by (auto simp: add_mapping_def)
  have up: "\<And>m' k k' v x. x \<in> m' k \<Longrightarrow> x \<in> add_mapping m' k' v k"
    using add_mapping_mono by blast
  show ?thesis
    using assms a c unfolding load_row_def Let_def
    by (auto intro!: up simp del: fun_upd_apply)
qed

text \<open>
  Claim C6. For every catalog row whose two code fields, as \<^verbatim>\<open>load_erp_codes\<close> binds
  them (\<^verbatim>\<open>acode\<close> and \<^verbatim>\<open>cpartno\<close>, the stripped cell texts), are both non-empty
  and not the null marker \<^verbatim>\<open>nan\<close>, the table built from the rows maps \<open>acode\<close> to a
  set containing \<open>cpartno\<close> and \<open>cpartno\<close> to a set containing \<open>acode\<close>.
\<close>

theorem alias_table_symmetry:
  assumes "row \<in> set rows"
    and "acode = strip (fst row)" and "cpartno = strip (snd row)"
    and "acode \<noteq> []" and "cpartno \<noteq> []"
    and "lower acode \<noteq> ''nan''" and "lower cpartno \<noteq> ''nan''"
  shows "cpartno \<in> load_erp_codes rows acode \<and> acode \<in> load_erp_codes rows cpartno"
proof -
  have gen: "row \<in> set rows \<Longrightarrow>
      cpartno \<in> foldl load_row m rows acode \<and> acode \<in> foldl load_row m rows cpartno" for m
  proof (induction rows arbitrary: m)
    case Nil
    then show ?case by simp
  next
    case (Cons r rs)
    show ?case
    proof (cases "row \<in> set rs")
      case True
      then show ?thesis using Cons.IH by simp
    next
      case False
      with Cons.prems have r: "r = row" by simp
      have "cpartno \<in> load_row m row acode \<and> acode \<in> load_row m row cpartno"
        using load_row_inserts [of row m] assms(2-7) by simp
      then show ?thesis
        using r foldl_load_row_mono [of "load_row m row" acode rs]
          foldl_load_row_mono [of "load_row m row" cpartno rs]
        by auto
    qed
  qed
  show ?thesis unfolding load_erp_codes_def using gen [OF assms(1)] .
qed

theorem alias_table_symmetry_witness:
  "''X100'' \<in> load_erp_codes [(''VLV-100'', ''X100''), ('' nan '', ''Y1'')] ''VLV-100''
   \<and> ''VLV-100'' \<in> load_erp_codes [(''VLV-100'', ''X100''), ('' nan '', ''Y1'')] ''X100''"
proof -
  have s1: "strip ''VLV-100'' = ''VLV-100''" by code_simp
  have s2: "strip ''X100'' = ''X100''" by code_simp
  have l1: "lower ''VLV-100'' \<noteq> ''nan''" by code_simp
  have l2: "lower ''X100'' \<noteq> ''nan''" by code_simp
  show ?thesis
    using alias_table_symmetry [of "(''VLV-100'', ''X100'')"
        "[(''VLV-100'', ''X100''), ('' nan '', ''Y1'')]" "''VLV-100''" "''X100''"] s1 s2 l1 l2
    by simp
qed

section \<open>The analyzer of \<^verbatim>\<open>script.py\<close>\<close>

lemma items_match_codes_nonempty: "items_match m po_item so_item \<Longrightarrow> item_codes po_item \<noteq> {}"
  unfolding items_match_def direct_match_def numeric_match_def mapped_match_def numbers_of_def
  by (auto split: if_splits)

lemma record_match_Inr:
  assumes "item_codes po_item \<noteq> {}"
  shows "record_match pick po_item so_item a =
           Inr (check_material (pick (item_codes po_item)) po_item so_item
                 (check_price (pick (item_codes po_item)) po_item so_item
                   (check_quantity (pick (item_codes po_item)) po_item so_item
                     (a\<lparr>matched_items := matched_items a + 1\<rparr>))))"
  using assms by (simp add: record_match_def next_iter_def)

lemma checks_keep_counts:
  "total_po_items (check_quantity c p s a) = total_po_items a"
  "matched_items (check_quantity c p s a) = matched_items a"
  "mismatched_items (check_quantity c p s a) = mismatched_items a"
  "total_po_items (check_price c p s a) = total_po_items a"
  "matched_items (check_price c p s a) = matched_items a"
  "mismatched_items (check_price c p s a) = mismatched_items a"
  "total_po_items (check_material c p s a) = total_po_items a"
  "matched_items (check_material c p s a) = matched_items a"
  "mismatched_items (check_material c p s a) = mismatched_items a"
  by (simp_all add: check_quantity_def check_price_def check_material_def)

lemma match_loop_find:
  "match_loop pick m po_item so_items a =
     (case find (items_match m po_item) so_items of
        None \<Rightarrow> Inr (False, a)
      | Some so_item \<Rightarrow>
          (case record_match pick po_item so_item a of
             Inl e \<Rightarrow> Inl e
           | Inr a' \<Rightarrow> Inr (True, a')))"
  by (induction so_items) simp_all

lemma match_loop_counts:
  "\<exists>found a'. match_loop pick m po_item so_items a = Inr (found, a')
     \<and> total_po_items a' = total_po_items a
     \<and> matched_items a' = matched_items a + (if found then 1 else 0)
     \<and> mismatched_items a' = mismatched_items a"
proof (induction so_items)
  case Nil
  show ?case by auto
next
  case (Cons so_item rest)
  show ?case
  proof (cases "items_match m po_item so_item")
    case True
    then have "item_codes po_item \<noteq> {}" by (rule items_match_codes_nonempty)
    then show ?thesis using True by (auto simp: record_match_Inr checks_keep_counts)
  next
    case False
    then show ?thesis using Cons.IH by simp
  qed
qed

lemma analyze_po_counts:
  "\<exists>a'. analyze_po pick m so_items po_item a = Inr a'
     \<and> total_po_items a' = total_po_items a + 1
     \<and> matched_items a' + mismatched_items a' = matched_items a + mismatched_items a + 1"
proof -
  obtain found a1 where
    ml: "match_loop pick m po_item so_items (a\<lparr>total_po_items := total_po_items a + 1\<rparr>) = Inr (found, a1)"
    and t: "total_po_items a1 = total_po_items a + 1"
    and ma: "matched_items a1 = matched_items a + (if found then 1 else 0)"
    and mi: "mismatched_items a1 = mismatched_items a"
    using match_loop_counts [of pick m po_item so_items "a\<lparr>total_po_items := total_po_items a + 1\<rparr>"]
    by auto
  show ?thesis
    using ml t ma mi by (simp add: analyze_po_def record_unmatched_def Let_def)
qed

lemma analyze_pos_counts:
  "\<exists>a'. analyze_pos pick m so_items po_items a = Inr a'
     \<and> total_po_items a' = total_po_items a + length po_items
     \<and> matched_items a' + mismatched_items a' = matched_items a + mismatched_items a + length po_items"
proof (induction po_items arbitrary: a)
  case Nil
  show ?case by simp
next
  case (Cons po_item rest)
  obtain a1 where s: "analyze_po pick m so_items po_item a = Inr a1"
    and t: "total_po_items a1 = total_po_items a + 1"
    and c: "matched_items a1 + mismatched_items a1 = matched_items a + mismatched_items a + 1"
    using analyze_po_counts [of pick m so_items po_item a] by auto
  obtain a2 where s2: "analyze_pos pick m so_items rest a1 = Inr a2"
    and t2: "total_po_items a2 = total_po_items a1 + length rest"
    and c2: "matched_items a2 + mismatched_items a2 = matched_items a1 + mismatched_items a1 + length rest"
    using Cons.IH [of a1] by auto
  show ?case using s t c s2 t2 c2 by simp
qed

text \<open>
  Claim C10. For every list of accumulated line items the analysis is produced (no exception
  leaves the loops) and its counters satisfy matched + unmatched = total purchase-order
  items, where the total is the number of accumulated items whose document type is
  \<^verbatim>\<open>PO\<close>: each such item is counted once, as matched or as unmatched.
\<close>

theorem summary_counts_add_up:
  "\<exists>a. analyze_and_report pick m items = Inr a
     \<and> matched_items a + mismatched_items a = total_po_items a
     \<and> total_po_items a = length (filter (\<lambda>item. source_doc item = ''PO'') items)"
  using analyze_pos_counts [of pick m "filter (\<lambda>item. source_doc item = ''SO'') items"
      "filter (\<lambda>item. source_doc item = ''PO'') items"
      "empty_analysis\<lparr>doc_summary := foldl (\<lambda>d item. bump (source_doc item) d) [] items\<rparr>"]
  by (auto simp: analyze_and_report_def Let_def empty_analysis_def)

theorem summary_counts_add_up_witness:
  "\<exists>a. analyze_and_report (\<lambda>codes. ''CH-1234'') (\<lambda>k. {})
         [\<lparr> line_number = [], item_codes = {''CH-1234''}, description = ''CH-1234'',
            quantity = ''1'', material_spec = [], source_doc = ''PO'',
            original_line = ''CH-1234'', price = 0, delivery_date = [] \<rparr>,
          \<lparr> line_number = [], item_codes = {''CH-9999''}, description = ''CH-9999'',
            quantity = ''1'', material_spec = [], source_doc = ''SO'',
            original_line = ''CH-9999'', price = 0, delivery_date = [] \<rparr>] = Inr a
     \<and> matched_items a + mismatched_items a = total_po_items a
     \<and> total_po_items a = 1"
  using summary_counts_add_up [of "\<lambda>codes. ''CH-1234''" "\<lambda>k. {}"
      "[\<lparr> line_number = [], item_codes = {''CH-1234''}, description = ''CH-1234'',
            quantity = ''1'', material_spec = [], source_doc = ''PO'',
            original_line = ''CH-1234'', price = 0, delivery_date = [] \<rparr>,
          \<lparr> line_number = [], item_codes = {''CH-9999''}, description = ''CH-9999'',
            quantity = ''1'', material_spec = [], source_doc = ''SO'',
            original_line = ''CH-9999'', price = 0, delivery_date = [] \<rparr>]"]
  by simp

section \<open>The line parsers keep no item without codes\<close>

lemma process_line_codes:
  "process_line line doc_type = Some item \<Longrightarrow> item_codes item \<noteq> {}"
  by (auto simp: process_line_def Let_def split: if_splits)

lemma process_line2_codes:
  "process_line2 line doc_type = Some item \<Longrightarrow> codes2 item \<noteq> {}"
  by (auto simp: process_line2_def Let_def split: if_splits)

lemma analyze_and_report_returns: "\<exists>a. analyze_and_report pick m items = Inr a"
  using analyze_pos_counts [of pick m "filter (\<lambda>item. source_doc item = ''SO'') items"
      "filter (\<lambda>item. source_doc item = ''PO'') items"
      "empty_analysis\<lparr>doc_summary := foldl (\<lambda>d item. bump (source_doc item) d) [] items\<rparr>"]
  by (auto simp: analyze_and_report_def Let_def)

lemma match_items2_member:
  "match_items2 po_item so_items = (Some so_item, score) \<Longrightarrow> so_item \<in> set so_items"
  by (induction so_items) (auto split: if_splits)

lemma analyze_po2_returns:
  assumes "codes2 po_item \<noteq> {}" and "\<forall>it \<in> set so_items. codes2 it \<noteq> {}"
  shows "\<exists>a'. analyze_po2 pick so_items po_item a = Inr a'"
proof (cases "match_items2 po_item so_items")
  case (Pair matched_item score)
  show ?thesis
  proof (cases matched_item)
    case None
    then show ?thesis using Pair assms(1) by (simp add: analyze_po2_def next_iter_def Let_def)
  next
    case (Some so_item)
    then have "so_item \<in> set so_items" using Pair match_items2_member by blast
    then have "codes2 so_item \<noteq> {}" using assms(2) by blast
    then show ?thesis
      using Pair Some assms(1) by (simp add: analyze_po2_def next_iter_def Let_def)
  qed
qed

lemma analyze_pos2_returns:
  assumes "\<forall>it \<in> set po_items. codes2 it \<noteq> {}" and "\<forall>it \<in> set so_items. codes2 it \<noteq> {}"
  shows "\<exists>a'. analyze_pos2 pick so_items po_items a = Inr a'"
  using assms(1)
proof (induction po_items arbitrary: a)
  case Nil
  show ?case by simp
next
  case (Cons po_item rest)
  then obtain a1 where "analyze_po2 pick so_items po_item a = Inr a1"
    using analyze_po2_returns [of po_item so_items pick a] assms(2) by auto
  then show ?case using Cons by auto
qed

text \<open>
  Claim C9. In both programs the line parser returns nothing or a line item whose set of
  codes is non-empty. Consequently, on items that the parser produced, the analyzer of
  \<^verbatim>\<open>script.py\<close> returns its analysis: \<^verbatim>\<open>next(iter(po_item.item_codes))\<close> never
  raises. The same holds for \<^verbatim>\<open>analyze_matches\<close> of \<^verbatim>\<open>script2.py\<close>.
\<close>

theorem line_items_have_codes:
  "(\<forall>item. process_line line doc_type = Some item \<longrightarrow> item_codes item \<noteq> {})
   \<and> (\<forall>item. process_line2 line doc_type = Some item \<longrightarrow> codes2 item \<noteq> {})
   \<and> ((\<forall>it \<in> set items. \<exists>l d. process_line l d = Some it)
        \<longrightarrow> (\<exists>a. analyze_and_report pick m items = Inr a))
   \<and> ((\<forall>it \<in> set items2. \<exists>l d. process_line2 l d = Some it)
        \<longrightarrow> (\<exists>a. analyze_matches2 pick items2 = Inr a))"
proof (intro conjI allI impI)
  fix item assume "process_line line doc_type = Some item"
  then show "item_codes item \<noteq> {}" by (rule process_line_codes)
next
  fix item assume "process_line2 line doc_type = Some item"
  then show "codes2 item \<noteq> {}" by (rule process_line2_codes)
next
  show "\<exists>a. analyze_and_report pick m items = Inr a" by (rule analyze_and_report_returns)
next
  assume "\<forall>it \<in> set items2. \<exists>l d. process_line2 l d = Some it"
  then have ne: "\<forall>it \<in> set items2. codes2 it \<noteq> {}" using process_line2_codes by blast
  show "\<exists>a. analyze_matches2 pick items2 = Inr a"
    unfolding analyze_matches2_def
    by (rule analyze_pos2_returns) (use ne in auto)
qed

lemma process_line_CH: 
  "process_line ''CH-1234'' ''PO'' =
     Some \<lparr> line_number = [], item_codes = {''CH-1234'', ''DP 1234 MM'', ''DPCV 1234 MM''},
            description = ''CH-1234'', quantity = ''1'', material_spec = [], source_doc = ''PO'',
            original_line = ''CH-1234'', price = 0, delivery_date = [] \<rparr>"
  by code_simp

lemma process_line2_CH: 
  "process_line2 ''CH-1234'' ''PO'' =
     Some \<lparr> item_number2 = [], codes2 = {''CH-1234''}, marc_code2 = [], material_spec2 = [],
            quantity2 = ''1'', price2 = 0, source_doc2 = ''PO'', original_line2 = ''CH-1234'',
            doc_type2 = ''PO'' \<rparr>"
  by code_simp

theorem line_items_have_codes_witness:
  "item_codes \<lparr> line_number = [], item_codes = {''CH-1234'', ''DP 1234 MM'', ''DPCV 1234 MM''},
            description = ''CH-1234'', quantity = ''1'', material_spec = [], source_doc = ''PO'',
            original_line = ''CH-1234'', price = 0, delivery_date = [] \<rparr> \<noteq> {}
   \<and> (\<exists>a. analyze_and_report (\<lambda>codes. ''CH-1234'') (\<lambda>k. {})
          [\<lparr> line_number = [], item_codes = {''CH-1234'', ''DP 1234 MM'', ''DPCV 1234 MM''},
            description = ''CH-1234'', quantity = ''1'', material_spec = [], source_doc = ''PO'',
            original_line = ''CH-1234'', price = 0, delivery_date = [] \<rparr>] = Inr a)
   \<and> (\<exists>a. analyze_matches2 (\<lambda>codes. ''CH-1234'')
          [\<lparr> item_number2 = [], codes2 = {''CH-1234''}, marc_code2 = [], material_spec2 = [],
            quantity2 = ''1'', price2 = 0, source_doc2 = ''PO'', original_line2 = ''CH-1234'',
            doc_type2 = ''PO'' \<rparr>] = Inr a)"
proof -
  let ?it = "\<lparr> line_number = [], item_codes = {''CH-1234'', ''DP 1234 MM'', ''DPCV 1234 MM''},
            description = ''CH-1234'', quantity = ''1'', material_spec = [], source_doc = ''PO'',
            original_line = ''CH-1234'', price = 0, delivery_date = [] \<rparr>"
  let ?it2 = "\<lparr> item_number2 = [], codes2 = {''CH-1234''}, marc_code2 = [], material_spec2 = [],
            quantity2 = ''1'', price2 = 0, source_doc2 = ''PO'', original_line2 = ''CH-1234'',
            doc_type2 = ''PO'' \<rparr>"
  have h1: "\<forall>it \<in> set [?it]. \<exists>l d. process_line l d = Some it"
    using process_line_CH by (metis empty_iff list.set(1) list.set(2) insert_iff)
  have h2: "\<forall>it \<in> set [?it2]. \<exists>l d. process_line2 l d = Some it"
    using process_line2_CH by (metis empty_iff list.set(1) list.set(2) insert_iff)
  show ?thesis
    using line_items_have_codes [of "''CH-1234''" "''PO''" "[?it]" "\<lambda>codes. ''CH-1234''"
        "\<lambda>k. {}" "[?it2]"] h1 h2 process_line_CH
    by blast
qed

section \<open>The matching engines\<close>

lemma match_items2_find:
  "match_items2 po_item so_items =
     (case find (\<lambda>so_item. direct_match (codes2 po_item) (codes2 so_item)
                           \<or> fuzzy_match (codes2 po_item) (codes2 so_item)) so_items of
        None \<Rightarrow> (None, 0)
      | Some so_item \<Rightarrow>
          (Some so_item, if direct_match (codes2 po_item) (codes2 so_item) then 100 else 95))"
  by (induction so_items) simp_all

lemma items_match_tiers:
  "items_match m po_item so_item =
     (direct_match (item_codes po_item) (item_codes so_item)
      \<or> numeric_match (item_codes po_item) (item_codes so_item)
      \<or> mapped_match m (item_codes po_item) (item_codes so_item))"
  by (simp add: items_match_def)

lemma four_digits_CH: "four_digits ''CH-1234'' = Some ''1234''"
  by code_simp

lemma four_digits_DP_full: "four_digits ''DP 1234 MM #12 M-5'' = Some ''1234''"
  by code_simp

lemma process_line2_DP:
  "process_line2 ''DP 1234 MM #12 M-5'' ''SO'' =
     Some \<lparr> item_number2 = [], codes2 = {''DP 1234 MM #12 M-5''}, marc_code2 = [],
            material_spec2 = [], quantity2 = ''1'', price2 = 0, source_doc2 = ''SO'',
            original_line2 = ''DP 1234 MM #12 M-5'', doc_type2 = ''SO'' \<rparr>"
  by code_simp

text \<open>
  Claim C1, as stated, fails. \<^verbatim>\<open>match_items\<close> of \<^verbatim>\<open>script2.py\<close> has no numeric tier:
  for the items that its parser builds from the lines \<^verbatim>\<open>CH-1234\<close> and
  \<^verbatim>\<open>DP 1234 MM #12 M-5\<close> the two code sets share the four-digit fragment \<^verbatim>\<open>1234\<close>,
  and the engine returns no item and score 0.
\<close>

theorem first_match_any_tier_counterexample:
  "process_line2 ''CH-1234'' ''PO'' =
     Some \<lparr> item_number2 = [], codes2 = {''CH-1234''}, marc_code2 = [], material_spec2 = [],
            quantity2 = ''1'', price2 = 0, source_doc2 = ''PO'', original_line2 = ''CH-1234'',
            doc_type2 = ''PO'' \<rparr>
   \<and> process_line2 ''DP 1234 MM #12 M-5'' ''SO'' =
     Some \<lparr> item_number2 = [], codes2 = {''DP 1234 MM #12 M-5''}, marc_code2 = [],
            material_spec2 = [], quantity2 = ''1'', price2 = 0, source_doc2 = ''SO'',
            original_line2 = ''DP 1234 MM #12 M-5'', doc_type2 = ''SO'' \<rparr>
   \<and> numeric_match {''CH-1234''} {''DP 1234 MM #12 M-5''}
   \<and> match_items2
        \<lparr> item_number2 = [], codes2 = {''CH-1234''}, marc_code2 = [], material_spec2 = [],
          quantity2 = ''1'', price2 = 0, source_doc2 = ''PO'', original_line2 = ''CH-1234'',
          doc_type2 = ''PO'' \<rparr>
        [\<lparr> item_number2 = [], codes2 = {''DP 1234 MM #12 M-5''}, marc_code2 = [],
           material_spec2 = [], quantity2 = ''1'', price2 = 0, source_doc2 = ''SO'',
           original_line2 = ''DP 1234 MM #12 M-5'', doc_type2 = ''SO'' \<rparr>] = (None, 0)"
proof -
  have n: "numeric_match {''CH-1234''} {''DP 1234 MM #12 M-5''}"
    by (simp add: numeric_match_def numbers_of_def four_digits_CH four_digits_DP_full)
  have d: "\<not> direct_match {''CH-1234''} {''DP 1234 MM #12 M-5''}"
    by (simp add: direct_match_def)
  have f: "\<not> fuzzy_match {''CH-1234''} {''DP 1234 MM #12 M-5''}"
    unfolding fuzzy_match_def by code_simp
  show ?thesis
    using n d f process_line2_CH process_line2_DP by simp
qed

text \<open>
  Claim C1, amended. Each engine takes the first sales-order item, in list order, that
  satisfies one of the tiers that engine has, and never a later one. \<^verbatim>\<open>match_items\<close>
  of \<^verbatim>\<open>script2.py\<close> has the direct tier (score 100) and the tier that strips
  \<^verbatim>\<open>' MR'\<close> (score 95), and returns no item with score 0 when no item satisfies
  either. The loop of \<^verbatim>\<open>analyze_and_report\<close> in \<^verbatim>\<open>script.py\<close> breaks at the first
  item on which \<^verbatim>\<open>items_match\<close> holds, that is the direct, the numeric or the alias
  tier, and reports no match when there is none.
\<close>

theorem first_sufficient_match:
  "match_items2 po_item2 so_items2 =
     (case find (\<lambda>so_item. direct_match (codes2 po_item2) (codes2 so_item)
                           \<or> fuzzy_match (codes2 po_item2) (codes2 so_item)) so_items2 of
        None \<Rightarrow> (None, 0)
      | Some so_item \<Rightarrow>
          (Some so_item, if direct_match (codes2 po_item2) (codes2 so_item) then 100 else 95))
   \<and> match_loop pick m po_item so_items a =
     (case find (\<lambda>so_item. direct_match (item_codes po_item) (item_codes so_item)
                  \<or> numeric_match (item_codes po_item) (item_codes so_item)
                  \<or> mapped_match m (item_codes po_item) (item_codes so_item)) so_items of
        None \<Rightarrow> Inr (False, a)
      | Some so_item \<Rightarrow>
          (case record_match pick po_item so_item a of
             Inl e \<Rightarrow> Inl e
           | Inr a' \<Rightarrow> Inr (True, a')))"
proof -
  have "items_match m po_item =
      (\<lambda>so_item. direct_match (item_codes po_item) (item_codes so_item)
                  \<or> numeric_match (item_codes po_item) (item_codes so_item)
                  \<or> mapped_match m (item_codes po_item) (item_codes so_item))"
    by (rule ext) (rule items_match_tiers)
  then show ?thesis
    using match_items2_find [of po_item2 so_items2] match_loop_find [of pick m po_item so_items a]
    by simp
qed

text \<open>
  At a purchase-order item with the code \<^verbatim>\<open>CH-1234 MR\<close>, a first candidate with the
  code \<^verbatim>\<open>CH-1234\<close> is returned with score 95 although the second candidate has the
  very code of the purchase-order item.
\<close>

theorem first_sufficient_match_witness:
  "match_items2
     \<lparr> item_number2 = [], codes2 = {''CH-1234 MR''}, marc_code2 = [], material_spec2 = [],
       quantity2 = ''1'', price2 = 0, source_doc2 = ''PO'', original_line2 = ''CH-1234 MR'',
       doc_type2 = ''PO'' \<rparr>
     [\<lparr> item_number2 = [], codes2 = {''CH-1234''}, marc_code2 = [], material_spec2 = [],
        quantity2 = ''1'', price2 = 0, source_doc2 = ''SO'', original_line2 = ''CH-1234'',
        doc_type2 = ''SO'' \<rparr>,
      \<lparr> item_number2 = [], codes2 = {''CH-1234 MR''}, marc_code2 = [], material_spec2 = [],
        quantity2 = ''1'', price2 = 0, source_doc2 = ''SO'', original_line2 = ''CH-1234 MR'',
        doc_type2 = ''SO'' \<rparr>]
   = (Some \<lparr> item_number2 = [], codes2 = {''CH-1234''}, marc_code2 = [], material_spec2 = [],
        quantity2 = ''1'', price2 = 0, source_doc2 = ''SO'', original_line2 = ''CH-1234'',
        doc_type2 = ''SO'' \<rparr>, 95)
   \<and> direct_match {''CH-1234 MR''} {''CH-1234 MR''}"
proof -
  have d1: "\<not> direct_match {''CH-1234 MR''} {''CH-1234''}"
    by (simp add: direct_match_def)
  have f1: "fuzzy_match {''CH-1234 MR''} {''CH-1234''}"
    unfolding fuzzy_match_def by code_simp
  have d2: "direct_match {''CH-1234 MR''} {''CH-1234 MR''}"
    by (simp add: direct_match_def)
  note eq = first_sufficient_match [where
        ?po_item2.0 = "\<lparr> item_number2 = [], codes2 = {''CH-1234 MR''}, marc_code2 = [],
          material_spec2 = [], quantity2 = ''1'', price2 = 0, source_doc2 = ''PO'',
          original_line2 = ''CH-1234 MR'', doc_type2 = ''PO'' \<rparr>"
        and ?so_items2.0 = "[\<lparr> item_number2 = [], codes2 = {''CH-1234''}, marc_code2 = [],
          material_spec2 = [], quantity2 = ''1'', price2 = 0, source_doc2 = ''SO'',
          original_line2 = ''CH-1234'', doc_type2 = ''SO'' \<rparr>,
         \<lparr> item_number2 = [], codes2 = {''CH-1234 MR''}, marc_code2 = [], material_spec2 = [],
          quantity2 = ''1'', price2 = 0, source_doc2 = ''SO'', original_line2 = ''CH-1234 MR'',
          doc_type2 = ''SO'' \<rparr>]", THEN conjunct1]
  show ?thesis
    by (subst eq) (simp add: d1 f1 d2)
qed

section \<open>Quantity extraction\<close>

lemma qty_loop_first_in_range:
  "qty_loop line ps =
     (case filter qty_ok (List.map_filter (qty_of line) ps) of
        [] \<Rightarrow> ''1''
      | qty # _ \<Rightarrow> str_int qty)"
  by (induction ps) (auto simp: List.map_filter_simps split: option.splits)

lemma qty_examples:
  "qty_loop ''QTY: 15000'' qty_patterns = ''1''"
  "qty_loop ''QTY: 25'' qty_patterns = ''25''"
  "qty_loop ''QTY: 15000'' qty_patterns2 = ''1''"
  "qty_loop ''QTY: 25'' qty_patterns2 = ''25''"
  by code_simp+

lemma qty_of_examples:
  "map (qty_of ''QTY: 15000'') qty_patterns = [Some 15000, None, None, None, None, None, None]"
  "map (qty_of ''QTY: 25 or 30 PCS'') qty_patterns = [Some 25, None, Some 30, None, None, None, None]"
  by code_simp+

text \<open>
  Claim C7. In both programs the quantity is the decimal text of the first in-range value
  (strictly between 0 and 10000) in the list of the values that the patterns yield, taken
  in pattern order, whatever the later patterns yield; it is \<^verbatim>\<open>1\<close> when no pattern
  yields an in-range value. The line \<^verbatim>\<open>QTY: 15000\<close> gives \<^verbatim>\<open>1\<close> and the line
  \<^verbatim>\<open>QTY: 25\<close> gives \<^verbatim>\<open>25\<close>.
\<close>

theorem quantity_first_in_range_wins:
  "fst (extract_quantity_and_price line) =
     (case filter qty_ok (List.map_filter (qty_of line) qty_patterns) of
        [] \<Rightarrow> ''1''
      | qty # _ \<Rightarrow> str_int qty)
   \<and> fst (extract_quantity_and_price2 line) =
     (case filter qty_ok (List.map_filter (qty_of line) qty_patterns2) of
        [] \<Rightarrow> ''1''
      | qty # _ \<Rightarrow> str_int qty)
   \<and> qty_ok qty = (0 < qty \<and> qty < 10000)
   \<and> fst (extract_quantity_and_price ''QTY: 15000'') = ''1''
   \<and> fst (extract_quantity_and_price ''QTY: 25'') = ''25''
   \<and> fst (extract_quantity_and_price2 ''QTY: 15000'') = ''1''
   \<and> fst (extract_quantity_and_price2 ''QTY: 25'') = ''25''"
  by (simp add: extract_quantity_and_price_def extract_quantity_and_price2_def
      qty_loop_first_in_range [symmetric] qty_examples qty_ok_def)

text \<open>
  On the line \<^verbatim>\<open>QTY: 25 or 30 PCS\<close> the first pattern yields 25 and the third yields
  30; the quantity is \<^verbatim>\<open>25\<close>.
\<close>

theorem quantity_first_in_range_wins_witness:
  "List.map_filter (qty_of ''QTY: 25 or 30 PCS'') qty_patterns = [25, 30]
   \<and> fst (extract_quantity_and_price ''QTY: 25 or 30 PCS'') = ''25''"
proof -
  have m: "List.map_filter (qty_of ''QTY: 25 or 30 PCS'') qty_patterns = [25, 30]"
    by code_simp
  have s: "str_int 25 = ''25''"
    by code_simp
  note eq = quantity_first_in_range_wins [of "''QTY: 25 or 30 PCS''", THEN conjunct1]
  show ?thesis
    by (subst eq) (simp add: m s qty_ok_def)
qed

section \<open>The material specification\<close>

lemma process_line_material:
  "process_line line doc_type = Some item \<Longrightarrow>
     material_spec item = (case paren_segment line of Some g \<Rightarrow> strip g | None \<Rightarrow> [])"
  by (auto simp: process_line_def Let_def split: if_splits)

lemma process_line2_material:
  "process_line2 line doc_type = Some item \<Longrightarrow>
     material_spec2 item =
       (case paren_segment line of
          Some g \<Rightarrow> if plausible_material (strip g) then strip g else []
        | None \<Rightarrow> [])"
  by (auto simp: process_line2_def extract_material_spec2_def Let_def split: if_splits)

lemma process_line_URGENT:
  "process_line ''CH-1234 (URGENT)'' ''PO'' =
     Some \<lparr> line_number = [], item_codes = {''CH-1234'', ''DP 1234 MM'', ''DPCV 1234 MM''},
            description = ''CH-1234 (URGENT)'', quantity = ''1'', material_spec = ''URGENT'',
            source_doc = ''PO'', original_line = ''CH-1234 (URGENT)'', price = 0,
            delivery_date = [] \<rparr>"
  by code_simp

lemma not_plausible_URGENT: "\<not> plausible_material ''URGENT''"
  by code_simp

text \<open>
  Claim C8, as stated, fails for \<^verbatim>\<open>process_line\<close> of \<^verbatim>\<open>script.py\<close>, which applies
  no keyword test: the line \<^verbatim>\<open>CH-1234 (URGENT)\<close> yields an item whose material
  specification is \<^verbatim>\<open>URGENT\<close>, a text with none of the material keywords.
\<close>

theorem material_check_counterexample:
  "map_option material_spec (process_line ''CH-1234 (URGENT)'' ''PO'') = Some ''URGENT''
   \<and> paren_segment ''CH-1234 (URGENT)'' = Some ''URGENT''
   \<and> \<not> plausible_material ''URGENT''"
proof -
  have "paren_segment ''CH-1234 (URGENT)'' = Some ''URGENT''"
    by code_simp
  then show ?thesis
    using process_line_URGENT not_plausible_URGENT by simp
qed

text \<open>
  Claim C8, amended. For every line that \<^verbatim>\<open>script2.py\<close> turns into a line item, the
  material specification is the stripped text of the first parenthesized segment if that
  text contains one of the keywords \<^verbatim>\<open>ASTM\<close>, \<^verbatim>\<open>GR.\<close>, \<^verbatim>\<open>WCB\<close>, \<^verbatim>\<open>LCC\<close>,
  \<^verbatim>\<open>CF8M\<close> (in any letter case), and empty when there is no segment or the test
  fails. For every line that \<^verbatim>\<open>script.py\<close> turns into a line item, it is the stripped
  text of the first parenthesized segment, with no test, and empty when there is no
  segment.
\<close>

theorem material_spec_of_line_item:
  "(process_line2 line doc_type = Some item2 \<longrightarrow>
      material_spec2 item2 =
        (case paren_segment line of
           Some g \<Rightarrow> if plausible_material (strip g) then strip g else []
         | None \<Rightarrow> []))
   \<and> (process_line line doc_type = Some item \<longrightarrow>
      material_spec item = (case paren_segment line of Some g \<Rightarrow> strip g | None \<Rightarrow> []))"
  using process_line_material process_line2_material by blast

lemma process_line2_URGENT:
  "process_line2 ''CH-1234 (URGENT)'' ''PO'' =
     Some \<lparr> item_number2 = [], codes2 = {''CH-1234''}, marc_code2 = [], material_spec2 = [],
            quantity2 = ''1'', price2 = 0, source_doc2 = ''PO'',
            original_line2 = ''CH-1234 (URGENT)'', doc_type2 = ''PO'' \<rparr>"
  by code_simp

lemma process_line2_WCB:
  "process_line2 ''CH-1234 ( astm a216 gr wcb )'' ''PO'' =
     Some \<lparr> item_number2 = [], codes2 = {''CH-1234''}, marc_code2 = [],
            material_spec2 = ''astm a216 gr wcb'', quantity2 = ''1'', price2 = 0,
            source_doc2 = ''PO'', original_line2 = ''CH-1234 ( astm a216 gr wcb )'',
            doc_type2 = ''PO'' \<rparr>"
  by code_simp

theorem material_spec_of_line_item_witness:
  "material_spec2 \<lparr> item_number2 = [], codes2 = {''CH-1234''}, marc_code2 = [],
       material_spec2 = ''astm a216 gr wcb'', quantity2 = ''1'', price2 = 0,
       source_doc2 = ''PO'', original_line2 = ''CH-1234 ( astm a216 gr wcb )'',
       doc_type2 = ''PO'' \<rparr> =
     (case paren_segment ''CH-1234 ( astm a216 gr wcb )'' of
        Some g \<Rightarrow> if plausible_material (strip g) then strip g else []
      | None \<Rightarrow> [])
   \<and> material_spec \<lparr> line_number = [], item_codes = {''CH-1234'', ''DP 1234 MM'', ''DPCV 1234 MM''},
       description = ''CH-1234 (URGENT)'', quantity = ''1'', material_spec = ''URGENT'',
       source_doc = ''PO'', original_line = ''CH-1234 (URGENT)'', price = 0,
       delivery_date = [] \<rparr> =
     (case paren_segment ''CH-1234 (URGENT)'' of Some g \<Rightarrow> strip g | None \<Rightarrow> [])"
  using material_spec_of_line_item [of "''CH-1234 ( astm a216 gr wcb )''" "''PO''" _ _, THEN conjunct1, rule_format, OF process_line2_WCB]
    material_spec_of_line_item [of "''CH-1234 (URGENT)''" "''PO''" _ _, THEN conjunct2, rule_format, OF process_line_URGENT]
  by (rule conjI)

end
